theory Spec2Isabelle
  imports Main "HOL-Library.Option_ord"
begin

section \<open>Data model\<close>

text \<open>
  The server keeps three Mongoose collections: users, issues and notifications.
  An ObjectId is compared through \<^verbatim>\<open>toString()\<close> only, so it is modelled by a
  natural number; a \<^verbatim>\<open>Date\<close> is the number of milliseconds it holds.
  The string enumerations of the schemas (\<^verbatim>\<open>role\<close>, \<^verbatim>\<open>status\<close>, the two
  \<^verbatim>\<open>priority\<close> enumerations and the notification \<^verbatim>\<open>type\<close>) are datatypes:
  the schema validators and the \<^verbatim>\<open>isIn\<close> request validators admit no other
  value.
\<close>

type_synonym objectId = nat
type_synonym date = nat

datatype role = Citizen | Low_admin | High_admin

datatype status =
  Pending | In_progress | Pending_verification | Verified_solved | Escalated | Reopened

datatype issue_priority = Low | Medium | High | Urgent

datatype notif_priority = NLow | NMedium | NHigh

datatype notif_type =
  Issue_created | Issue_assigned | Issue_updated | Issue_escalated | Issue_resolved
  | Verification_required | Issue_reopened | Comment_added | Status_changed

text \<open>The user schema: \<^verbatim>\<open>department\<close> is an optional string path.\<close>

record user =
  uid :: objectId
  role :: role
  assignedZones :: "string list"
  department :: "string option"
  isActive :: bool

record statusChange =
  hstatus :: status
  changedBy :: objectId
  changedAt :: date
  reason :: string

record comment =
  ctext :: string
  author :: objectId
  createdAt :: date
  isInternal :: bool

text \<open>
  The issue schema. \<^verbatim>\<open>zone\<close> and \<^verbatim>\<open>address\<close> are the paths
  \<^verbatim>\<open>location.zone\<close> and \<^verbatim>\<open>location.address\<close>. The media, tag, cost and
  work-proof arrays are left out: no operation modelled below reads or writes them.
\<close>

record issue =
  iid :: objectId
  title :: string
  description :: string
  category :: string
  priority :: issue_priority
  status :: status
  address :: string
  zone :: string
  reportedBy :: objectId
  assignedTo :: "objectId option"
  assignedDepartment :: "string option"
  assignedAt :: "date option"
  dueDate :: "date option"
  resolvedAt :: "date option"
  verifiedAt :: "date option"
  escalatedAt :: "date option"
  comments :: "comment list"
  statusHistory :: "statusChange list"

text \<open>
  The issue schema declares \<^verbatim>\<open>assignedDepartment\<close> with \<^verbatim>\<open>trim: true\<close>: a string
  written to the path is stored without its leading and trailing white space
  (\<^verbatim>\<open>String.prototype.trim\<close>, here on the white space and line terminators of
  ASCII).
\<close>

definition is_space :: "char \<Rightarrow> bool" where
  "is_space c = (c \<in> set [CHR 0x09, CHR 0x0A, CHR 0x0B, CHR 0x0C, CHR 0x0D, CHR 0x20])"

definition trim :: "string \<Rightarrow> string" where
  "trim s = rev (dropWhile is_space (rev (dropWhile is_space s)))"

section \<open>Workflow engine\<close>

text \<open>
  \<^verbatim>\<open>isValidStatusTransition\<close> of routes/issues.js: an object literal keyed by the
  current status, read with \<^verbatim>\<open>transitions[currentStatus]?.includes(newStatus) || false\<close>.
  The role argument is accepted and never read.
\<close>

definition transitions :: "(status \<times> status list) list" where
  "transitions =
     [(Pending, [In_progress, Escalated]),
      (In_progress, [Pending_verification, Escalated]),
      (Pending_verification, [Verified_solved, Reopened]),
      (Verified_solved, [Reopened]),
      (Escalated, [In_progress, Pending_verification]),
      (Reopened, [In_progress, Escalated])]"

definition isValidStatusTransition :: "status \<Rightarrow> status \<Rightarrow> role \<Rightarrow> bool" where
  "isValidStatusTransition currentStatus newStatus userRole =
     (case map_of transitions currentStatus of
        None \<Rightarrow> False
      | Some targets \<Rightarrow> newStatus \<in> set targets)"

text \<open>
  The edge table as section 4.1 of the specification lists it, written independently of
  the code as a set of directed edges.
\<close>

definition spec_edge_table :: "(status \<times> status) set" where
  "spec_edge_table =
     {(Pending, In_progress), (Pending, Escalated),
      (In_progress, Pending_verification), (In_progress, Escalated),
      (Pending_verification, Verified_solved), (Pending_verification, Reopened),
      (Verified_solved, Reopened),
      (Escalated, In_progress), (Escalated, Pending_verification),
      (Reopened, In_progress), (Reopened, Escalated)}"

text \<open>\<^verbatim>\<open>addStatusChange\<close> of models/Issue.js; the reason defaults to the empty string.\<close>

definition addStatusChange :: "status \<Rightarrow> objectId \<Rightarrow> string option \<Rightarrow> date \<Rightarrow> issue \<Rightarrow> issue" where
  "addStatusChange newStatus actor rsn now i =
     i\<lparr>statusHistory := statusHistory i @
          [\<lparr>hstatus = newStatus, changedBy = actor, changedAt = now,
            reason = (case rsn of None \<Rightarrow> [] | Some r \<Rightarrow> r)\<rparr>],
       status := newStatus\<rparr>"

section \<open>Access policy\<close>

text \<open>
  The four policy functions of routes/issues.js. \<^verbatim>\<open>issue.assignedTo?.toString() ===
  user._id.toString()\<close> is false when the issue has no assignee;
  \<^verbatim>\<open>user.department === issue.assignedDepartment\<close> is true when both are
  undefined.
\<close>

definition canAssignIssue :: "user \<Rightarrow> issue \<Rightarrow> bool" where
  "canAssignIssue u i =
     (if role u = High_admin then True
      else if role u = Low_admin then
        zone i \<in> set (assignedZones u) \<or> department u = assignedDepartment i
      else False)"

definition canUpdateStatus :: "user \<Rightarrow> issue \<Rightarrow> status \<Rightarrow> bool" where
  "canUpdateStatus u i newStatus =
     (if role u = High_admin then True
      else if role u = Low_admin then
        assignedTo i = Some (uid u) \<or> zone i \<in> set (assignedZones u)
      else if role u = Citizen then
        reportedBy i = uid u \<and> newStatus \<in> set [Pending_verification, Reopened]
      else False)"

definition hasIssueAccess :: "user \<Rightarrow> issue \<Rightarrow> bool" where
  "hasIssueAccess u i =
     (if role u = High_admin then True
      else if role u = Low_admin then
        assignedTo i = Some (uid u) \<or> zone i \<in> set (assignedZones u)
      else if role u = Citizen then reportedBy i = uid u
      else False)"

definition canAddWorkProof :: "user \<Rightarrow> issue \<Rightarrow> bool" where
  "canAddWorkProof u i =
     (if role u = High_admin then True
      else if role u = Low_admin then assignedTo i = Some (uid u)
      else False)"

section \<open>Collections\<close>

text \<open>
  An object literal handed to the notification model: the fields the call sites write.
  A literal that omits \<^verbatim>\<open>priority\<close> has \<open>nd_priority = None\<close>. Each literal is
  paired with its \<^verbatim>\<open>recipient\<close>.
\<close>

record notificationData =
  nd_type :: notif_type
  nd_title :: string
  nd_message :: string
  nd_relatedIssue :: "objectId option"
  nd_priority :: "notif_priority option"

text \<open>The notification schema (unnamed part 3).\<close>

record notification =
  nid :: objectId
  recipient :: objectId
  ntype :: notif_type
  ntitle :: string
  nmessage :: string
  relatedIssue :: "objectId option"
  isRead :: bool
  readAt :: "date option"
  npriority :: notif_priority

text \<open>
  The database: the three collections in insertion order, and the next ObjectId the
  driver hands out to a new document.
\<close>

record db =
  users :: "user list"
  issues :: "issue list"
  notifications :: "notification list"
  nextId :: objectId

datatype error =
  ValidationError      \<comment> \<open>400 with the validator's error array\<close>
  | NotFound           \<comment> \<open>404\<close>
  | AccessDenied       \<comment> \<open>403\<close>
  | InvalidTransition  \<comment> \<open>400 "Invalid status transition"\<close>
  | InvalidAssignedUser  \<comment> \<open>400 "Invalid assigned user"\<close>

definition findIssueById :: "objectId \<Rightarrow> db \<Rightarrow> issue option" where
  "findIssueById k d = find (\<lambda>i. iid i = k) (issues d)"

definition findUserById :: "objectId \<Rightarrow> db \<Rightarrow> user option" where
  "findUserById k d = find (\<lambda>u. uid u = k) (users d)"

definition findNotificationById :: "objectId \<Rightarrow> db \<Rightarrow> notification option" where
  "findNotificationById k d = find (\<lambda>n. nid n = k) (notifications d)"

text \<open>\<^verbatim>\<open>issue.save()\<close>: the stored document with the same id is replaced, a new one is appended.\<close>

fun save_issue :: "issue \<Rightarrow> issue list \<Rightarrow> issue list" where
  "save_issue i [] = [i]"
| "save_issue i (j # js) = (if iid j = iid i then i # js else j # save_issue i js)"

fun save_notification :: "notification \<Rightarrow> notification list \<Rightarrow> notification list" where
  "save_notification n [] = [n]"
| "save_notification n (m # ms) =
     (if nid m = nid n then n # ms else m # save_notification n ms)"

text \<open>\<^verbatim>\<open>findByIdAndDelete\<close>: the first document with the id is removed.\<close>

fun delete_notification :: "objectId \<Rightarrow> notification list \<Rightarrow> notification list" where
  "delete_notification k [] = []"
| "delete_notification k (m # ms) = (if nid m = k then ms else m # delete_notification k ms)"

text \<open>
  Constructing a notification document applies the schema defaults: unread, no read
  date, priority \<^verbatim>\<open>medium\<close> when the literal has none.
\<close>

definition new_Notification :: "objectId \<Rightarrow> objectId \<times> notificationData \<Rightarrow> notification" where
  "new_Notification k rn =
     \<lparr>nid = k, recipient = fst rn, ntype = nd_type (snd rn), ntitle = nd_title (snd rn),
      nmessage = nd_message (snd rn), relatedIssue = nd_relatedIssue (snd rn),
      isRead = False, readAt = None,
      npriority = (case nd_priority (snd rn) of None \<Rightarrow> NMedium | Some p \<Rightarrow> p)\<rparr>"

fun stamp :: "objectId \<Rightarrow> (objectId \<times> notificationData) list \<Rightarrow> notification list" where
  "stamp k [] = []"
| "stamp k (rn # rns) = new_Notification k rn # stamp (Suc k) rns"

definition insertMany :: "(objectId \<times> notificationData) list \<Rightarrow> db \<Rightarrow> db" where
  "insertMany rns d =
     d\<lparr>notifications := notifications d @ stamp (nextId d) rns,
       nextId := nextId d + length rns\<rparr>"

section \<open>Notification dispatcher\<close>

datatype recipient_spec = Admin | Participants | Specific objectId

text \<open>
  \<^verbatim>\<open>createNotification\<close> of routes/issues.js. With \<^verbatim>\<open>'participants'\<close> and no issue
  the code falls into its last branch, where saving a document whose recipient is the
  string \<^verbatim>\<open>'participants'\<close> throws; the \<^verbatim>\<open>catch\<close> logs it and nothing is stored.
\<close>

definition createNotification ::
  "notificationData \<Rightarrow> recipient_spec \<Rightarrow> issue option \<Rightarrow> db \<Rightarrow> db" where
  "createNotification nd rcpt io d =
     (case rcpt of
        Admin \<Rightarrow>
          insertMany
            (map (\<lambda>admin. (uid admin, nd))
               (filter (\<lambda>u. role u \<in> set [Low_admin, High_admin]) (users d))) d
      | Participants \<Rightarrow>
          (case io of
             None \<Rightarrow> d
           | Some i \<Rightarrow>
               insertMany
                 (map (\<lambda>p. (p, nd))
                    ([reportedBy i] @ (case assignedTo i of None \<Rightarrow> [] | Some a \<Rightarrow> [a]))) d)
      | Specific r \<Rightarrow> insertMany [(r, nd)] d)"

text \<open>
  The array that \<^verbatim>\<open>handleStatusChangeNotifications\<close> builds in its \<^verbatim>\<open>switch\<close>;
  \<^verbatim>\<open>'pending'\<close> has no case. \<^verbatim>\<open>User.find({ role: 'high_admin' })\<close> is the
  filter over the user collection.
\<close>

definition statusChangeNotifications ::
  "user list \<Rightarrow> issue \<Rightarrow> status \<Rightarrow> (objectId \<times> notificationData) list" where
  \<open>statusChangeNotifications us i newStatus =
     (case newStatus of
        Pending \<Rightarrow> []
      | In_progress \<Rightarrow>
          [(reportedBy i,
            \<lparr>nd_type = Issue_updated, nd_title = ''Issue In Progress'',
             nd_message = ''Your reported issue "'' @ title i @ ''" is now being worked on'',
             nd_relatedIssue = Some (iid i), nd_priority = None\<rparr>)]
      | Pending_verification \<Rightarrow>
          map (\<lambda>admin.
                (uid admin,
                 \<lparr>nd_type = Verification_required, nd_title = ''Verification Required'',
                  nd_message = ''Issue "'' @ title i @ ''" requires verification'',
                  nd_relatedIssue = Some (iid i), nd_priority = Some NHigh\<rparr>))
            (filter (\<lambda>u. role u = High_admin) us)
          @ [(reportedBy i,
              \<lparr>nd_type = Verification_required,
               nd_title = ''Issue Resolution Pending Verification'',
               nd_message = ''Your reported issue "'' @ title i
                 @ ''" has been marked as resolved and is pending verification'',
               nd_relatedIssue = Some (iid i), nd_priority = None\<rparr>)]
      | Verified_solved \<Rightarrow>
          [(reportedBy i,
            \<lparr>nd_type = Issue_resolved, nd_title = ''Issue Resolved'',
             nd_message = ''Your reported issue "'' @ title i
               @ ''" has been verified as resolved'',
             nd_relatedIssue = Some (iid i), nd_priority = None\<rparr>)]
      | Escalated \<Rightarrow>
          map (\<lambda>admin.
                (uid admin,
                 \<lparr>nd_type = Issue_escalated, nd_title = ''Issue Escalated'',
                  nd_message = ''Issue "'' @ title i
                    @ ''" has been escalated and requires your attention'',
                  nd_relatedIssue = Some (iid i), nd_priority = Some NHigh\<rparr>))
            (filter (\<lambda>u. role u = High_admin) us)
      | Reopened \<Rightarrow>
          (case assignedTo i of
             None \<Rightarrow> []
           | Some a \<Rightarrow>
               [(a,
                 \<lparr>nd_type = Issue_reopened, nd_title = ''Issue Reopened'',
                  nd_message = ''Issue "'' @ title i @ ''" has been reopened'',
                  nd_relatedIssue = Some (iid i), nd_priority = Some NHigh\<rparr>)]))\<close>

definition handleStatusChangeNotifications :: "issue \<Rightarrow> status \<Rightarrow> user \<Rightarrow> db \<Rightarrow> db" where
  "handleStatusChangeNotifications i newStatus actor d =
     (let ns = statusChangeNotifications (users d) i newStatus
      in if length ns > 0 then insertMany ns d else d)"

section \<open>Route handlers\<close>

text \<open>
  Every handler takes the database and returns its response together with the database
  it leaves behind. A handler that answers with an error has returned before its first
  write. The clock is an argument: \<open>now\<close> is what \<^verbatim>\<open>new Date()\<close> gives during
  the request.
\<close>

subsection \<open>PUT /api/issues/:id/status\<close>

definition stampStatusDates :: "status \<Rightarrow> date \<Rightarrow> issue \<Rightarrow> issue" where
  "stampStatusDates st now i =
     (if st = Pending_verification then i\<lparr>resolvedAt := Some now\<rparr>
      else if st = Verified_solved then i\<lparr>verifiedAt := Some now\<rparr>
      else if st = Escalated then i\<lparr>escalatedAt := Some now\<rparr>
      else i)"

definition updateStatus ::
  "db \<Rightarrow> user \<Rightarrow> objectId \<Rightarrow> status \<Rightarrow> string option \<Rightarrow> date \<Rightarrow> (error + issue) \<times> db" where
  "updateStatus d u k st rsn now =
     (case findIssueById k d of
        None \<Rightarrow> (Inl NotFound, d)
      | Some i \<Rightarrow>
          if \<not> canUpdateStatus u i st then (Inl AccessDenied, d)
          else if \<not> isValidStatusTransition (status i) st (role u) then (Inl InvalidTransition, d)
          else
            let i1 = stampStatusDates st now (addStatusChange st (uid u) rsn now i);
                d1 = d\<lparr>issues := save_issue i1 (issues d)\<rparr>
            in (Inr i1, handleStatusChangeNotifications i1 st u d1))"

subsection \<open>Automatic assignment and POST /api/issues\<close>

text \<open>
  \<^verbatim>\<open>User.findOne({...}).sort({ 'assignedIssues': 1 })\<close>: the matching users are
  sorted ascending by the path \<^verbatim>\<open>assignedIssues\<close> of the user document and the first
  is returned. The user schema declares no such path (the admin routes compute a field
  of that name per request with a \<^verbatim>\<open>$lookup\<close>, and nothing stores it), so the sort
  key of every document is missing. \<open>sort_key\<close> is stable: documents with equal keys
  keep the collection's order.
\<close>

definition assignedIssues_path :: "user \<Rightarrow> nat option" where
  "assignedIssues_path u = None"

definition findAssignee :: "string \<Rightarrow> user list \<Rightarrow> user option" where
  "findAssignee z us =
     (case sort_key assignedIssues_path
             (filter (\<lambda>u. role u = Low_admin \<and> z \<in> set (assignedZones u) \<and> isActive u) us) of
        [] \<Rightarrow> None
      | admin # _ \<Rightarrow> Some admin)"

definition autoAssignIssue :: "issue \<Rightarrow> date \<Rightarrow> db \<Rightarrow> issue \<times> db" where
  "autoAssignIssue i now d =
     (case findAssignee (zone i) (users d) of
        None \<Rightarrow> (i, d)
      | Some admin \<Rightarrow>
          let i1 = i\<lparr>assignedTo := Some (uid admin),
                     assignedDepartment := map_option trim (department admin),
                     assignedAt := Some now,
                     status := In_progress\<rparr>;
              d1 = d\<lparr>issues := save_issue i1 (issues d)\<rparr>
          in (i1,
              createNotification
                \<lparr>nd_type = Issue_assigned, nd_title = ''Issue Auto-Assigned'',
                 nd_message = ''A new '' @ category i1 @ '' issue has been auto-assigned to you'',
                 nd_relatedIssue = Some (iid i1),
                 nd_priority = Some (if priority i1 = Urgent then NHigh else NMedium)\<rparr>
                (Specific (uid admin)) None d1))"

text \<open>
  The body of a create request after the validator chain; \<open>rq_priority = None\<close> is a
  body without \<^verbatim>\<open>priority\<close>, which defaults to \<^verbatim>\<open>medium\<close>. The verdict of
  \<^verbatim>\<open>validationResult(req).isEmpty()\<close> is the argument \<open>ok\<close>.
\<close>

record createRequest =
  rq_title :: string
  rq_description :: string
  rq_category :: string
  rq_address :: string
  rq_zone :: string
  rq_priority :: "issue_priority option"

definition new_Issue :: "objectId \<Rightarrow> objectId \<Rightarrow> createRequest \<Rightarrow> issue" where
  "new_Issue k reporter rq =
     \<lparr>iid = k, title = rq_title rq, description = rq_description rq,
      category = rq_category rq,
      priority = (case rq_priority rq of None \<Rightarrow> Medium | Some p \<Rightarrow> p),
      status = Pending, address = rq_address rq, zone = rq_zone rq,
      reportedBy = reporter, assignedTo = None, assignedDepartment = None,
      assignedAt = None, dueDate = None, resolvedAt = None, verifiedAt = None,
      escalatedAt = None, comments = [], statusHistory = []\<rparr>"

definition createIssue ::
  "db \<Rightarrow> user \<Rightarrow> bool \<Rightarrow> createRequest \<Rightarrow> date \<Rightarrow> (error + issue) \<times> db" where
  "createIssue d u ok rq now =
     (if \<not> ok then (Inl ValidationError, d)
      else
        let i = new_Issue (nextId d) (uid u) rq;
            d1 = d\<lparr>issues := save_issue i (issues d), nextId := Suc (nextId d)\<rparr>;
            r = autoAssignIssue i now d1
        in (Inr (fst r),
            createNotification
              \<lparr>nd_type = Issue_created, nd_title = ''New Issue Reported'',
               nd_message = ''A new '' @ rq_category rq @ '' issue has been reported in ''
                 @ rq_zone rq,
               nd_relatedIssue = Some (iid i),
               nd_priority =
                 Some (if (case rq_priority rq of None \<Rightarrow> Medium | Some p \<Rightarrow> p) = Urgent
                       then NHigh else NMedium)\<rparr>
              Admin None (snd r)))"

subsection \<open>PUT /api/issues/:id/assign\<close>

text \<open>
  Modelled from the spec: the \<^verbatim>\<open>requireRole\<close> middleware (middleware/auth.js) is not
  among the sources. The route is declared admin only and section 4.2 never lets a
  citizen assign: an actor whose role is not in the list is turned away.
\<close>

definition requireRole :: "role list \<Rightarrow> user \<Rightarrow> bool" where
  "requireRole rs u = (role u \<in> set rs)"

text \<open>
  \<^verbatim>\<open>assignedDepartment || assignedUser.department\<close>: a missing or empty string from
  the body gives way to the assignee's department; the schema trims what is written.
\<close>

definition assignIssue ::
  "db \<Rightarrow> user \<Rightarrow> objectId \<Rightarrow> objectId \<Rightarrow> string option \<Rightarrow> date option \<Rightarrow> date
     \<Rightarrow> (error + issue) \<times> db" where
  "assignIssue d u k assignee dept due now =
     (if \<not> requireRole [Low_admin, High_admin] u then (Inl AccessDenied, d)
      else case findIssueById k d of
        None \<Rightarrow> (Inl NotFound, d)
      | Some i \<Rightarrow>
          if role u = Low_admin \<and> \<not> canAssignIssue u i then (Inl AccessDenied, d)
          else case findUserById assignee d of
            None \<Rightarrow> (Inl InvalidAssignedUser, d)
          | Some assignedUser \<Rightarrow>
              if role assignedUser \<notin> set [Low_admin, High_admin]
              then (Inl InvalidAssignedUser, d)
              else
                let i1 = addStatusChange In_progress (uid u) (Some ''Issue assigned'') now
                           (i\<lparr>assignedTo := Some assignee,
                              assignedDepartment :=
                                map_option trim
                                  (case dept of
                                     None \<Rightarrow> department assignedUser
                                   | Some s \<Rightarrow>
                                       if s = [] then department assignedUser else Some s),
                              assignedAt := Some now,
                              dueDate := due\<rparr>);
                    d1 = d\<lparr>issues := save_issue i1 (issues d)\<rparr>
                in (Inr i1,
                    createNotification
                      \<lparr>nd_type = Issue_assigned, nd_title = ''Issue Assigned'',
                       nd_message = ''You have been assigned a new '' @ category i1 @ '' issue'',
                       nd_relatedIssue = Some (iid i1),
                       nd_priority = Some (if priority i1 = Urgent then NHigh else NMedium)\<rparr>
                      (Specific (uid assignedUser)) None d1))"

subsection \<open>POST /api/admin/reassign-issue\<close>



subsection \<open>POST /api/issues/:id/comments\<close>

text \<open>
  \<open>txt\<close> is the comment text after the validator's \<^verbatim>\<open>trim\<close>; the validator asks
  for at least one character. \<open>internal = None\<close> is a body without
  \<^verbatim>\<open>isInternal\<close>, which defaults to false.
\<close>

definition addComment ::
  "db \<Rightarrow> user \<Rightarrow> objectId \<Rightarrow> string \<Rightarrow> bool option \<Rightarrow> date \<Rightarrow> (error + comment) \<times> db" where
  "addComment d u k txt internal now =
     (if length txt < 1 then (Inl ValidationError, d)
      else case findIssueById k d of
        None \<Rightarrow> (Inl NotFound, d)
      | Some i \<Rightarrow>
          if \<not> hasIssueAccess u i then (Inl AccessDenied, d)
          else
            let c = \<lparr>ctext = txt, author = uid u, createdAt = now,
                     isInternal = ((case internal of None \<Rightarrow> False | Some b \<Rightarrow> b)
                                   \<and> role u \<in> set [Low_admin, High_admin])\<rparr>;
                i1 = i\<lparr>comments := comments i @ [c]\<rparr>;
                d1 = d\<lparr>issues := save_issue i1 (issues d)\<rparr>
            in (Inr (last (comments i1)),
                createNotification
                  \<lparr>nd_type = Comment_added, nd_title = ''New Comment'',
                   nd_message = ''A new comment was added to issue: '' @ title i1,
                   nd_relatedIssue = Some (iid i1), nd_priority = None\<rparr>
                  Participants (Some i1) d1))"

subsection \<open>PUT /api/notifications/:id/read and DELETE /api/notifications/:id\<close>

definition markAsRead :: "date \<Rightarrow> notification \<Rightarrow> notification" where
  "markAsRead now n = n\<lparr>isRead := True, readAt := Some now\<rparr>"

definition readNotification :: "db \<Rightarrow> user \<Rightarrow> objectId \<Rightarrow> date \<Rightarrow> (error + unit) \<times> db" where
  "readNotification d u k now =
     (case findNotificationById k d of
        None \<Rightarrow> (Inl NotFound, d)
      | Some n \<Rightarrow>
          if recipient n \<noteq> uid u then (Inl AccessDenied, d)
          else (Inr (), d\<lparr>notifications := save_notification (markAsRead now n) (notifications d)\<rparr>))"

definition deleteNotification :: "db \<Rightarrow> user \<Rightarrow> objectId \<Rightarrow> (error + unit) \<times> db" where
  "deleteNotification d u k =
     (case findNotificationById k d of
        None \<Rightarrow> (Inl NotFound, d)
      | Some n \<Rightarrow>
          if recipient n \<noteq> uid u then (Inl AccessDenied, d)
          else (Inr (), d\<lparr>notifications := delete_notification k (notifications d)\<rparr>))"

section \<open>Specification measures and sample data\<close>

text \<open>
  The workload measure of section 4.3 of the specification: the number of open issues
  assigned to a user, an issue being open until it is \<^verbatim>\<open>verified_solved\<close>.
\<close>

definition spec_open_assigned :: "objectId \<Rightarrow> issue list \<Rightarrow> nat" where
  "spec_open_assigned k is =
     length (filter (\<lambda>i. assignedTo i = Some k \<and> status i \<noteq> Verified_solved) is)"

text \<open>The notification documents a handler added to the collection.\<close>

definition added :: "db \<Rightarrow> db \<Rightarrow> notification list" where
  "added d d' = drop (length (notifications d)) (notifications d')"

text \<open>
  A small municipality: two citizens, three zone administrators and one high
  administrator, as the seeding script creates them.
\<close>

definition citizen1 :: user where
  "citizen1 = \<lparr>uid = 1, role = Citizen, assignedZones = [], department = None, isActive = True\<rparr>"

definition citizen2 :: user where
  "citizen2 = \<lparr>uid = 2, role = Citizen, assignedZones = [], department = None, isActive = True\<rparr>"

definition managerA :: user where
  "managerA = \<lparr>uid = 10, role = Low_admin, assignedZones = [''Zone A'', ''Zone B''],
                department = Some ''Public Works'', isActive = True\<rparr>"

definition managerB :: user where
  "managerB = \<lparr>uid = 11, role = Low_admin, assignedZones = [''Zone A''],
                department = Some ''Public Works'', isActive = True\<rparr>"

definition managerC :: user where
  "managerC = \<lparr>uid = 12, role = Low_admin, assignedZones = [''Zone C''],
                department = Some ''Sanitation'', isActive = True\<rparr>"

definition chief :: user where
  "chief = \<lparr>uid = 20, role = High_admin, assignedZones = [''Zone A'', ''Zone B'', ''Zone C''],
             department = Some ''Administration'', isActive = True\<rparr>"

definition pothole :: issue where
  "pothole =
     \<lparr>iid = 100, title = ''Deep pothole'', description = ''Pothole near the market'',
      category = ''pothole'', priority = Urgent, status = Pending,
      address = ''1 Market Road'', zone = ''Zone A'', reportedBy = 1, assignedTo = None,
      assignedDepartment = None, assignedAt = None, dueDate = None, resolvedAt = None,
      verifiedAt = None, escalatedAt = None, comments = [], statusHistory = []\<rparr>"

text \<open>Two issues that \<open>managerA\<close> is working on, the second in the sanitation department.\<close>

definition lamp :: issue where
  "lamp = pothole\<lparr>iid := 101, title := ''Street lamp out'', category := ''streetlight'',
                   priority := Medium, status := In_progress, assignedTo := Some 10,
                   assignedDepartment := Some ''Public Works'', assignedAt := Some 3\<rparr>"

definition leak :: issue where
  "leak = pothole\<lparr>iid := 102, title := ''Water leak'', category := ''water_leak'',
                   priority := Urgent, status := In_progress, assignedTo := Some 10,
                   assignedDepartment := Some ''Sanitation'', assignedAt := Some 4\<rparr>"

definition town :: db where
  "town = \<lparr>users = [citizen1, citizen2, managerA, managerB, managerC, chief],
            issues = [pothole, lamp, leak], notifications = [], nextId = 200\<rparr>"

definition garbage_report :: createRequest where
  "garbage_report =
     \<lparr>rq_title = ''Overflowing bin'', rq_description = ''Bin not emptied for a week'',
      rq_category = ''garbage'', rq_address = ''2 Market Road'', rq_zone = ''Zone A'',
      rq_priority = Some Urgent\<rparr>"

definition inbox :: db where
  "inbox = \<lparr>users = [citizen1, citizen2], issues = [pothole],
             notifications =
               [\<lparr>nid = 300, recipient = 1, ntype = Issue_updated, ntitle = ''Issue In Progress'',
                 nmessage = ''Your issue is now being worked on'', relatedIssue = Some 100,
                 isRead = False, readAt = None, npriority = NMedium\<rparr>],
             nextId = 301\<rparr>"

lemmas sample_defs =
  citizen1_def citizen2_def managerA_def managerB_def managerC_def chief_def
  pothole_def lamp_def leak_def town_def garbage_report_def inbox_def

lemmas find_defs = findIssueById_def findUserById_def findNotificationById_def

lemmas trim_defs = trim_def is_space_def

lemmas policy_defs = canAssignIssue_def canUpdateStatus_def hasIssueAccess_def canAddWorkProof_def

section \<open>Properties of the workflow engine\<close>

lemma valid_transition_iff_edge:
  "isValidStatusTransition c n r = ((c, n) \<in> spec_edge_table)"
  by (cases c; cases n)
     (simp_all add: isValidStatusTransition_def transitions_def spec_edge_table_def)

text \<open>
  Claim C1. For every current status, requested status and actor role, the transition
  check allows the pair exactly when it is an edge of the table of section 4.1, and the
  answer is the same for every other role.
\<close>

theorem isValidStatusTransition_edge_table:
  "isValidStatusTransition c n r = ((c, n) \<in> spec_edge_table)
   \<and> isValidStatusTransition c n r = isValidStatusTransition c n r'"
  by (cases c; cases n)
     (simp_all add: isValidStatusTransition_def transitions_def spec_edge_table_def)

section \<open>Properties of the collections\<close>

lemma find_save_issue:
  "find (\<lambda>j. iid j = iid i) (save_issue i xs) = Some i"
  by (induction xs) auto

lemma find_save_notification:
  "find (\<lambda>m. nid m = nid n) (save_notification n xs) = Some n"
  by (induction xs) auto

lemma find_nid: "find (\<lambda>m. nid m = k) xs = Some n \<Longrightarrow> nid n = k"
  by (induction xs) (auto split: if_splits)

lemma find_iid: "find (\<lambda>j. iid j = k) xs = Some i \<Longrightarrow> iid i = k"
  by (induction xs) (auto split: if_splits)

lemma recipient_stamp: "map recipient (stamp k rns) = map fst rns"
  by (induction rns arbitrary: k) (simp_all add: new_Notification_def)

lemma npriority_stamp:
  "map npriority (stamp k rns) =
     map (\<lambda>rn. case nd_priority (snd rn) of None \<Rightarrow> NMedium | Some p \<Rightarrow> p) rns"
  by (induction rns arbitrary: k) (simp_all add: new_Notification_def)

lemma ntype_stamp: "map ntype (stamp k rns) = map (\<lambda>rn. nd_type (snd rn)) rns"
  by (induction rns arbitrary: k) (simp_all add: new_Notification_def)

lemma added_insertMany: "added d (insertMany rns d) = stamp (nextId d) rns"
  by (simp add: added_def insertMany_def)

lemma issues_insertMany: "issues (insertMany rns d) = issues d"
  by (simp add: insertMany_def)

lemma issues_createNotification: "issues (createNotification nd r io d) = issues d"
  by (simp add: createNotification_def issues_insertMany split: recipient_spec.split option.split)

lemma added_handleStatusChangeNotifications:
  "added d (handleStatusChangeNotifications i st actor d) =
     stamp (nextId d) (statusChangeNotifications (users d) i st)"
proof (cases "statusChangeNotifications (users d) i st")
  case Nil
  then show ?thesis by (simp add: handleStatusChangeNotifications_def added_def)
next
  case (Cons rn rns)
  then show ?thesis
    by (simp add: handleStatusChangeNotifications_def added_insertMany)
qed

section \<open>Reading and deleting notifications\<close>

text \<open>
  Claim C10. When the stored notification's recipient is not the requesting user, both
  marking it read and deleting it are rejected with access denied and the database is
  left as it was; when the recipient is the requesting user, marking it read succeeds
  and the stored notification is the old one with the read flag set and the read date
  recorded.
\<close>

theorem notification_owner_only:
  assumes "findNotificationById k d = Some n"
  shows "(recipient n \<noteq> uid u \<longrightarrow>
            readNotification d u k now = (Inl AccessDenied, d)
            \<and> deleteNotification d u k = (Inl AccessDenied, d))
         \<and> (recipient n = uid u \<longrightarrow>
              fst (readNotification d u k now) = Inr ()
              \<and> findNotificationById k (snd (readNotification d u k now))
                  = Some (n\<lparr>isRead := True, readAt := Some now\<rparr>))"
proof -
  from assms have k: "nid n = k"
    by (auto simp: findNotificationById_def dest: find_nid)
  have "find (\<lambda>m. nid m = nid (markAsRead now n))
          (save_notification (markAsRead now n) (notifications d)) = Some (markAsRead now n)"
    by (rule find_save_notification)
  then have "find (\<lambda>m. nid m = k)
          (save_notification (markAsRead now n) (notifications d)) = Some (markAsRead now n)"
    using k by (simp add: markAsRead_def)
  with assms show ?thesis
    by (simp add: readNotification_def deleteNotification_def findNotificationById_def
        markAsRead_def)
qed

theorem notification_owner_only_witness:
  "findNotificationById 300 inbox = Some (hd (notifications inbox))
   \<and> readNotification inbox citizen2 300 9 = (Inl AccessDenied, inbox)
   \<and> deleteNotification inbox citizen2 300 = (Inl AccessDenied, inbox)
   \<and> fst (readNotification inbox citizen1 300 9) = Inr ()
   \<and> findNotificationById 300 (snd (readNotification inbox citizen1 300 9))
       = Some ((hd (notifications inbox))\<lparr>isRead := True, readAt := Some 9\<rparr>)"
proof -
  have h: "findNotificationById 300 inbox = Some (hd (notifications inbox))"
    by (simp add: findNotificationById_def inbox_def)
  have r: "recipient (hd (notifications inbox)) = uid citizen1"
    "recipient (hd (notifications inbox)) \<noteq> uid citizen2"
    by (simp_all add: inbox_def citizen1_def citizen2_def)
  show ?thesis
    using h r notification_owner_only [OF h, of citizen2 9]
      notification_owner_only [OF h, of citizen1 9]
    by simp
qed

section \<open>Comments\<close>

text \<open>
  Claim C9. Whenever a comment is added, the comment returned is the last comment of
  the stored issue; when its author is a citizen its internal flag is false whatever
  the request asked for, and a stored internal flag of true means that the author is a
  low or a high administrator.
\<close>

theorem comment_internal_flag:
  assumes "addComment d u k txt internal now = (Inr c, d')"
  shows "(role u = Citizen \<longrightarrow> \<not> isInternal c)
         \<and> (isInternal c \<longrightarrow> role u = Low_admin \<or> role u = High_admin)
         \<and> (\<exists>i'. findIssueById k d' = Some i' \<and> comments i' \<noteq> [] \<and> last (comments i') = c)"
proof -
  from assms obtain i where i: "findIssueById k d = Some i"
    by (auto simp: addComment_def split: if_splits option.splits)
  then have k: "iid i = k"
    by (auto simp: findIssueById_def dest: find_iid)
  define c0 where "c0 = \<lparr>ctext = txt, author = uid u, createdAt = now,
      isInternal = ((case internal of None \<Rightarrow> False | Some b \<Rightarrow> b)
                    \<and> role u \<in> set [Low_admin, High_admin])\<rparr>"
  define i1 where "i1 = i\<lparr>comments := comments i @ [c0]\<rparr>"
  from assms i have c: "c = c0"
    and d': "issues d' = save_issue i1 (issues d)"
    by (auto simp: addComment_def Let_def c0_def i1_def issues_createNotification
        split: if_splits)
  have "find (\<lambda>j. iid j = iid i1) (save_issue i1 (issues d)) = Some i1"
    by (rule find_save_issue)
  then have "findIssueById k d' = Some i1"
    using k d' by (simp add: findIssueById_def i1_def)
  moreover have "comments i1 \<noteq> []" "last (comments i1) = c"
    by (simp_all add: i1_def c)
  moreover have "role u = Citizen \<longrightarrow> \<not> isInternal c"
    "isInternal c \<longrightarrow> role u = Low_admin \<or> role u = High_admin"
    by (auto simp: c c0_def)
  ultimately show ?thesis by blast
qed

theorem comment_internal_flag_witness:
  "addComment town citizen1 100 ''Still there'' (Some True) 7
     = (Inr \<lparr>ctext = ''Still there'', author = 1, createdAt = 7, isInternal = False\<rparr>,
        snd (addComment town citizen1 100 ''Still there'' (Some True) 7))
   \<and> role citizen1 = Citizen"
proof -
  have h: "addComment town citizen1 100 ''Still there'' (Some True) 7
     = (Inr \<lparr>ctext = ''Still there'', author = 1, createdAt = 7, isInternal = False\<rparr>,
        snd (addComment town citizen1 100 ''Still there'' (Some True) 7))"
    by (rule prod_eqI) (simp_all add: addComment_def Let_def find_defs sample_defs hasIssueAccess_def)
  have r: "role citizen1 = Citizen" by (simp add: citizen1_def)
  show ?thesis using h r comment_internal_flag [OF h] by simp
qed

section \<open>Status updates and the access policy\<close>

text \<open>
  Claim C2 as stated: a request for an unreachable status is answered with the
  invalid-transition rejection. The handler asks the policy first: a citizen who did not
  report the pothole and asks for \<^verbatim>\<open>verified_solved\<close> is turned away with 403.
\<close>

theorem updateStatus_policy_first_counterexample:
  "findIssueById 100 town = Some pothole
   \<and> (status pothole, Verified_solved) \<notin> spec_edge_table
   \<and> fst (updateStatus town citizen2 100 Verified_solved None 5) = Inl AccessDenied
   \<and> fst (updateStatus town citizen2 100 Verified_solved None 5) \<noteq> Inl InvalidTransition"
  by (simp add: updateStatus_def find_defs sample_defs canUpdateStatus_def spec_edge_table_def)

text \<open>
  Claim C2, amended. For every stored issue and every requested status that is not an
  edge from the issue's status, the status update fails, with the access-denied
  rejection when the policy refuses the actor and with the invalid-transition rejection
  otherwise, and the database it leaves is the one it found: the issue keeps its status,
  its history and its timestamps, and no notification is written.
\<close>

theorem updateStatus_rejects_unreachable:
  assumes "findIssueById k d = Some i" and "(status i, st) \<notin> spec_edge_table"
  shows "updateStatus d u k st rsn now =
           (Inl (if canUpdateStatus u i st then InvalidTransition else AccessDenied), d)
         \<and> findIssueById k (snd (updateStatus d u k st rsn now)) = Some i"
  using assms by (simp add: updateStatus_def valid_transition_iff_edge)

theorem updateStatus_rejects_unreachable_witness:
  "findIssueById 100 town = Some pothole
   \<and> (status pothole, Verified_solved) \<notin> spec_edge_table
   \<and> updateStatus town chief 100 Verified_solved None 5 = (Inl InvalidTransition, town)"
proof -
  have h1: "findIssueById 100 town = Some pothole"
    by (simp add: find_defs sample_defs)
  have h2: "(status pothole, Verified_solved) \<notin> spec_edge_table"
    by (simp add: spec_edge_table_def pothole_def)
  have h3: "canUpdateStatus chief pothole Verified_solved"
    by (simp add: canUpdateStatus_def chief_def)
  show ?thesis
    using h1 h2 h3 updateStatus_rejects_unreachable [OF h1 h2, of chief None 5] by simp
qed

text \<open>
  Claim C5 as stated: a zone administrator outside the issue's zone who is not its
  assignee is denied every mutating action. \<open>managerC\<close> covers Zone C only and the
  leak in Zone A is assigned to \<open>managerA\<close>, yet the leak's department is
  \<open>managerC\<close>'s, and the assign policy lets \<open>managerC\<close> through.
\<close>

theorem canAssignIssue_department_counterexample:
  "role managerC = Low_admin
   \<and> zone leak \<notin> set (assignedZones managerC)
   \<and> assignedTo leak \<noteq> Some (uid managerC)
   \<and> canAssignIssue managerC leak"
  by (simp add: canAssignIssue_def sample_defs)

text \<open>
  Claim C5, amended. A zone administrator whose zones do not contain the issue's zone
  and who is not the issue's assignee is denied the status update, the comment and the
  work-proof upload; the assign action is denied exactly when, in addition, the
  administrator's department differs from the issue's assigned department.
\<close>

theorem low_admin_outside_zone_denied:
  assumes "role u = Low_admin" and "zone i \<notin> set (assignedZones u)"
    and "assignedTo i \<noteq> Some (uid u)"
  shows "\<not> canUpdateStatus u i st \<and> \<not> hasIssueAccess u i \<and> \<not> canAddWorkProof u i
         \<and> canAssignIssue u i = (department u = assignedDepartment i)"
  using assms by (simp add: policy_defs)

theorem low_admin_outside_zone_denied_witness:
  "role managerC = Low_admin \<and> zone lamp \<notin> set (assignedZones managerC)
   \<and> assignedTo lamp \<noteq> Some (uid managerC)
   \<and> \<not> canUpdateStatus managerC lamp Escalated \<and> \<not> hasIssueAccess managerC lamp
   \<and> \<not> canAddWorkProof managerC lamp \<and> \<not> canAssignIssue managerC lamp"
proof -
  have h1: "role managerC = Low_admin" by (simp add: managerC_def)
  have h2: "zone lamp \<notin> set (assignedZones managerC)" by (simp add: sample_defs)
  have h3: "assignedTo lamp \<noteq> Some (uid managerC)" by (simp add: sample_defs)
  have h4: "department managerC \<noteq> assignedDepartment lamp" by (simp add: sample_defs)
  show ?thesis
    using h1 h2 h3 h4 low_admin_outside_zone_denied [OF h1 h2 h3, of Escalated] by simp
qed

text \<open>
  Claim C6. A citizen is granted a status update exactly when they reported the issue
  and ask for \<^verbatim>\<open>pending_verification\<close> or \<^verbatim>\<open>reopened\<close>; the assign policy never
  grants a citizen, and the assign route turns every citizen away without a write.
\<close>

theorem citizen_permissions:
  assumes "role u = Citizen"
  shows "canUpdateStatus u i st =
           (reportedBy i = uid u \<and> (st = Pending_verification \<or> st = Reopened))
         \<and> \<not> canAssignIssue u i
         \<and> assignIssue d u k a dept due now = (Inl AccessDenied, d)"
  using assms by (simp add: policy_defs assignIssue_def requireRole_def)

theorem citizen_permissions_witness:
  "role citizen1 = Citizen
   \<and> canUpdateStatus citizen1 pothole Reopened
   \<and> \<not> canUpdateStatus citizen1 pothole Escalated
   \<and> \<not> canUpdateStatus citizen2 pothole Reopened
   \<and> \<not> canAssignIssue citizen1 pothole
   \<and> assignIssue town citizen1 100 10 None None 5 = (Inl AccessDenied, town)"
proof -
  have h1: "role citizen1 = Citizen" by (simp add: citizen1_def)
  have h2: "role citizen2 = Citizen" by (simp add: citizen2_def)
  have ids: "reportedBy pothole = uid citizen1" "reportedBy pothole \<noteq> uid citizen2"
    by (simp_all add: sample_defs)
  show ?thesis
    using h1 ids
      citizen_permissions [OF h1, of pothole Reopened town 100 10 None None 5]
      citizen_permissions [OF h1, of pothole Escalated town 100 10 None None 5]
      citizen_permissions [OF h2, of pothole Reopened town 100 10 None None 5]
    by simp
qed

section \<open>Escalation notifications\<close>

lemma in_stamp:
  "n \<in> set (stamp k rns) \<Longrightarrow>
     \<exists>rn \<in> set rns. recipient n = fst rn \<and> ntype n = nd_type (snd rn)
        \<and> npriority n = (case nd_priority (snd rn) of None \<Rightarrow> NMedium | Some p \<Rightarrow> p)"
  by (induction rns arbitrary: k) (auto simp: new_Notification_def)

lemma escalated_records:
  "rn \<in> set (statusChangeNotifications us i Escalated) \<Longrightarrow>
     nd_priority (snd rn) = Some NHigh \<and> nd_type (snd rn) = Issue_escalated"
  by (auto simp: statusChangeNotifications_def)

lemma escalated_recipients:
  "map fst (statusChangeNotifications us i Escalated)
     = map uid (filter (\<lambda>u. role u = High_admin) us)"
  by (simp add: statusChangeNotifications_def comp_def)

text \<open>
  Claim C7, amended. When a status update moves an issue to \<^verbatim>\<open>escalated\<close>, the
  records written are exactly one per high administrator, in the order of the user
  collection, each of type \<^verbatim>\<open>issue_escalated\<close> and of priority high; the assignee
  gets no record of their own.
\<close>

theorem escalated_notifies_high_admins:
  "map recipient (added d (handleStatusChangeNotifications i Escalated actor d))
     = map uid (filter (\<lambda>u. role u = High_admin) (users d))
   \<and> list_all (\<lambda>n. npriority n = NHigh \<and> ntype n = Issue_escalated)
       (added d (handleStatusChangeNotifications i Escalated actor d))"
proof -
  have "npriority n = NHigh \<and> ntype n = Issue_escalated"
    if "n \<in> set (stamp (nextId d) (statusChangeNotifications (users d) i Escalated))" for n
  proof -
    from in_stamp [OF that] obtain rn
      where "rn \<in> set (statusChangeNotifications (users d) i Escalated)"
        and "ntype n = nd_type (snd rn)"
        and "npriority n = (case nd_priority (snd rn) of None \<Rightarrow> NMedium | Some p \<Rightarrow> p)"
      by blast
    with escalated_records [of rn "users d" i] show ?thesis by simp
  qed
  then show ?thesis
    by (simp add: added_handleStatusChangeNotifications recipient_stamp
        escalated_recipients list_all_iff)
qed

lemma town_high_admins: "map uid (filter (\<lambda>u. role u = High_admin) (users town)) = [20]"
  by (simp add: town_def citizen1_def citizen2_def managerA_def managerB_def managerC_def
      chief_def)

text \<open>
  Claim C7 as stated: an escalation also produces a record for the current assignee.
  The lamp is assigned to \<open>managerA\<close>; when \<open>managerA\<close> escalates it, the only record
  written is the one for the high administrator.
\<close>

theorem escalated_no_assignee_record_counterexample:
  "assignedTo lamp = Some (uid managerA)
   \<and> map recipient (added town (handleStatusChangeNotifications lamp Escalated managerA town))
       = [uid chief]
   \<and> uid managerA \<notin> set (map recipient
         (added town (handleStatusChangeNotifications lamp Escalated managerA town)))"
  by (simp add: added_handleStatusChangeNotifications recipient_stamp escalated_recipients
      town_high_admins lamp_def managerA_def chief_def)

theorem escalated_notifies_high_admins_witness:
  "map recipient (added town (handleStatusChangeNotifications leak Escalated managerA town))
     = [20]
   \<and> list_all (\<lambda>n. npriority n = NHigh \<and> ntype n = Issue_escalated)
       (added town (handleStatusChangeNotifications leak Escalated managerA town))"
  using escalated_notifies_high_admins [of town leak managerA] town_high_admins by simp

section \<open>Notification priority of urgent issues\<close>














section \<open>Automatic assignment\<close>

lemma sort_by_missing_path: "sort_key assignedIssues_path us = us"
proof (induction us)
  case Nil
  then show ?case by simp
next
  case (Cons u us)
  then show ?case
    by (cases us) (simp_all add: assignedIssues_path_def)
qed

lemma findAssignee_first_eligible:
  "findAssignee z us =
     find (\<lambda>u. role u = Low_admin \<and> z \<in> set (assignedZones u) \<and> isActive u) us"
  unfolding findAssignee_def sort_by_missing_path
  by (induction us) simp_all

lemma findAssignee_eligible:
  assumes "findAssignee z us = Some admin"
  shows "admin \<in> set us \<and> role admin = Low_admin \<and> z \<in> set (assignedZones admin)
         \<and> isActive admin"
  using assms unfolding findAssignee_first_eligible
  by (induction us) (auto split: if_splits)

lemma autoAssignIssue_nobody:
  assumes "findAssignee (zone i) (users d) = None"
  shows "autoAssignIssue i now d = (i, d)"
  using assms by (simp add: autoAssignIssue_def)

lemma autoAssignIssue_somebody:
  assumes "findAssignee (zone i) (users d) = Some admin"
  shows "fst (autoAssignIssue i now d) =
           i\<lparr>assignedTo := Some (uid admin),
             assignedDepartment := map_option trim (department admin),
             assignedAt := Some now, status := In_progress\<rparr>"
  using assms by (simp add: autoAssignIssue_def Let_def)

section \<open>Status and status history\<close>

lemma addStatusChange_last:
  "statusHistory (addStatusChange st actor rsn now i) = statusHistory i @ [h]
     \<Longrightarrow> hstatus h = status (addStatusChange st actor rsn now i)"
  by (auto simp: addStatusChange_def)

lemma updateStatus_appends_history:
  assumes "updateStatus d u k st rsn now = (Inr i1, d')"
  shows "\<exists>i h. findIssueById k d = Some i \<and> statusHistory i1 = statusHistory i @ [h]
           \<and> hstatus h = status i1 \<and> status i1 = st"
  using assms
  by (auto simp: updateStatus_def Let_def addStatusChange_def stampStatusDates_def
      split: option.splits if_splits)

lemma assignIssue_appends_history:
  assumes "assignIssue d u k a dept due now = (Inr i1, d')"
  shows "\<exists>i h. findIssueById k d = Some i \<and> statusHistory i1 = statusHistory i @ [h]
           \<and> hstatus h = status i1 \<and> status i1 = In_progress"
  using assms
  by (auto simp: assignIssue_def Let_def addStatusChange_def
      split: option.splits if_splits)

text \<open>
  Claim C3. Every operation that changes an issue's status leaves the status equal to
  the status of the last history entry, and automatic assignment on creation moves the
  issue to \<^verbatim>\<open>in_progress\<close> through \<^verbatim>\<open>addStatusChange\<close>. The status route and
  the assign route do so (the two lemmas above); creation does not. The overflowing bin is reported in Zone A, where
  \<open>managerA\<close> is eligible: the issue comes back from creation in status
  \<^verbatim>\<open>in_progress\<close> with an empty status history, and that is the document stored.
  \<^verbatim>\<open>autoAssignIssue\<close> writes the status field itself, where the assign and the
  status routes call \<^verbatim>\<open>addStatusChange\<close>.
\<close>

theorem autoAssign_skips_status_history:
  "fst (createIssue town citizen1 True garbage_report 5)
     = Inr ((new_Issue 200 1 garbage_report)
              \<lparr>assignedTo := Some 10, assignedDepartment := Some ''Public Works'',
                assignedAt := Some 5, status := In_progress\<rparr>)
   \<and> findIssueById 200 (snd (createIssue town citizen1 True garbage_report 5))
       = Some ((new_Issue 200 1 garbage_report)
              \<lparr>assignedTo := Some 10, assignedDepartment := Some ''Public Works'',
                assignedAt := Some 5, status := In_progress\<rparr>)
   \<and> statusHistory ((new_Issue 200 1 garbage_report)
              \<lparr>assignedTo := Some 10, assignedDepartment := Some ''Public Works'',
                assignedAt := Some 5, status := In_progress\<rparr>) = []"
  by (simp add: createIssue_def Let_def autoAssignIssue_def findAssignee_def
      assignedIssues_path_def createNotification_def insertMany_def find_defs
      new_Issue_def trim_defs sample_defs)

text \<open>
  Claim C4. Among the active zone administrators of the issue's zone the router picks
  the one with the fewest open assigned issues, and with nobody eligible the issue
  stays as it is. The second half holds (\<open>autoAssignIssue_nobody\<close>); the first does
  not, since the sort key is a path no user document has. In Zone A both \<open>managerA\<close> and \<open>managerB\<close> are active
  zone administrators; \<open>managerA\<close> has two open issues and \<open>managerB\<close> none, and the
  router assigns the new issue to \<open>managerA\<close>, the first of the two in the collection.
\<close>

theorem autoAssign_ignores_open_issues:
  "role managerB = Low_admin \<and> isActive managerB \<and> ''Zone A'' \<in> set (assignedZones managerB)
   \<and> spec_open_assigned (uid managerA) (issues town) = 2
   \<and> spec_open_assigned (uid managerB) (issues town) = 0
   \<and> findAssignee ''Zone A'' (users town) = Some managerA
   \<and> assignedTo (fst (autoAssignIssue (new_Issue 200 1 garbage_report) 5 town))
       = Some (uid managerA)"
  by (simp add: autoAssignIssue_def Let_def findAssignee_def assignedIssues_path_def
      spec_open_assigned_def new_Issue_def trim_defs sample_defs)

end
